theory Spec2Isabelle
  imports Main "HOL-Library.Word" "HOL-Library.Char_ord"
begin

section \<open>The connection end point of the ODBC driver\<close>

text \<open>
  The header \<^verbatim>\<open>ignite/odbc/end_point.h\<close> declares one aggregate,
  \<^verbatim>\<open>struct EndPoint\<close>, with two public data members and two constructors:
  \<^verbatim>\<open>
  struct EndPoint
  {
      EndPoint() : host(), port() { }
      EndPoint(const std::string& host, uint16_t port) : host(host), port(port) { }
      std::string host;
      uint16_t port;
  };
  \<close>
  A \<^verbatim>\<open>std::string\<close> is a finite sequence of 8-bit characters, which is what
  \<^typ>\<open>string\<close> is; \<^verbatim>\<open>uint16_t\<close> is the type of 16-bit words.
\<close>

subsection \<open>Data model\<close>

type_synonym uint16_t = "16 word"

record EndPoint =
  host :: string
  port :: uint16_t

subsection \<open>Constructors\<close>

text \<open>
  The default constructor value-initialises both members: \<^verbatim>\<open>host()\<close> is the empty
  string and \<^verbatim>\<open>port()\<close> is zero. Its body is empty.
\<close>

definition EndPoint_default :: EndPoint where
  "EndPoint_default = \<lparr> host = [], port = 0 \<rparr>"

text \<open>
  The two-argument constructor copy-initialises each member from the parameter of the
  same name. Its body is empty; it has no branch, no check and no \<^verbatim>\<open>throw\<close>, so
  its model has no error result.
\<close>

definition EndPoint_ctor :: "string \<Rightarrow> uint16_t \<Rightarrow> EndPoint" where
  "EndPoint_ctor h p = \<lparr> host = h, port = p \<rparr>"

subsection \<open>Access to the data members\<close>

text \<open>
  Both data members are public and neither is declared \<^verbatim>\<open>const\<close>; the struct
  declares no member function besides the constructors and no assignment operator, so
  the compiler provides copy (and move) construction and assignment. What the holder of
  an \<^verbatim>\<open>EndPoint e\<close> can do to it is therefore what the member types allow:
  \<^item> read \<^verbatim>\<open>e.host\<close> or \<^verbatim>\<open>e.port\<close>, which is all that a const instance allows
    (copying \<open>e\<close> and calling a const member function of the string, such as
    \<^verbatim>\<open>size\<close> or \<^verbatim>\<open>compare\<close>, are reads);
  \<^item> assign \<^verbatim>\<open>e.host = h\<close> or \<^verbatim>\<open>e.port = p\<close>;
  \<^item> change \<^verbatim>\<open>e.host\<close> in place through any non-const operation of
    \<^verbatim>\<open>std::string\<close>, given by its effect on the value: \<^verbatim>\<open>e.host.clear()\<close> is
    \<open>\<lambda>h. []\<close>, \<^verbatim>\<open>e.host.append(s)\<close> is \<open>\<lambda>h. h @ s\<close>, \<^verbatim>\<open>e.host[i] = c\<close> with
    \<open>i\<close> in range is \<open>\<lambda>h. h[i := c]\<close>, \<^verbatim>\<open>e.host.swap(s)\<close> is \<open>\<lambda>h. s\<close>; moving from
    \<open>e\<close> (\<^verbatim>\<open>EndPoint taker(std::move(e))\<close>) leaves the host as some valid string
    \<open>s\<close>, usually the empty one, and the port as it was, which is \<open>\<lambda>h. s\<close> again;
  \<^item> change \<^verbatim>\<open>e.port\<close> in place (\<^verbatim>\<open>++e.port\<close>, \<^verbatim>\<open>e.port += k\<close>), given by its
    effect on the value;
  \<^item> assign the whole object, \<^verbatim>\<open>e = other\<close> (swapping two end points does this to
    each).
\<close>

datatype EndPoint_access =
    Read_host
  | Read_port
  | Write_host string
  | Write_port uint16_t
  | Modify_host "string \<Rightarrow> string"
  | Modify_port "uint16_t \<Rightarrow> uint16_t"
  | Assign EndPoint

fun access :: "EndPoint \<Rightarrow> EndPoint_access \<Rightarrow> EndPoint" where
  "access e Read_host = e"
| "access e Read_port = e"
| "access e (Write_host h) = e\<lparr>host := h\<rparr>"
| "access e (Write_port p) = e\<lparr>port := p\<rparr>"
| "access e (Modify_host f) = e\<lparr>host := f (host e)\<rparr>"
| "access e (Modify_port g) = e\<lparr>port := g (port e)\<rparr>"
| "access e (Assign other) = other"

text \<open>The accesses that a const instance allows.\<close>

fun is_read :: "EndPoint_access \<Rightarrow> bool" where
  "is_read Read_host = True"
| "is_read Read_port = True"
| "is_read a = False"

text \<open>
  The accesses that go through a non-const path to the host, and those that go through
  a non-const path to the port; an assignment of the whole object is both.
\<close>

fun writes_host :: "EndPoint_access \<Rightarrow> bool" where
  "writes_host (Write_host h) = True"
| "writes_host (Modify_host f) = True"
| "writes_host (Assign other) = True"
| "writes_host a = False"

fun writes_port :: "EndPoint_access \<Rightarrow> bool" where
  "writes_port (Write_port p) = True"
| "writes_port (Modify_port g) = True"
| "writes_port (Assign other) = True"
| "writes_port a = False"

text \<open>The life of one instance: the accesses its holder makes, in order.\<close>

fun lifetime :: "EndPoint \<Rightarrow> EndPoint_access list \<Rightarrow> EndPoint" where
  "lifetime e [] = e"
| "lifetime e (a # as) = lifetime (access e a) as"

subsection \<open>Comparison\<close>

text \<open>
  Modelled from the spec: \<^verbatim>\<open>operator==\<close> for \<^verbatim>\<open>EndPoint\<close>, which the header does
  not declare. The specification asks for it in these words: two end points are equal
  iff their host strings are equal (exact, case-sensitive) and their port values are
  equal.
\<close>

definition EndPoint_equal :: "EndPoint \<Rightarrow> EndPoint \<Rightarrow> bool" where
  "EndPoint_equal e1 e2 \<longleftrightarrow> host e1 = host e2 \<and> port e1 = port e2"

subsection \<open>Parsing an end point from text\<close>

text \<open>
  Modelled from the spec: the text-to-end-point parser of the configuration layer, which
  is not part of the header. The specification describes it as follows: it accepts a
  string of the form \<^verbatim>\<open>host:port\<close>, split on the last \<^verbatim>\<open>:\<close>; on malformed input, or
  when the port is out of the valid numeric range, it signals a \<^verbatim>\<open>ParseError\<close> that
  lists the offending text, and it never constructs an end point with a port outside the
  valid numeric range. The specification leaves the rest of the grammar to the
  implementer; the model reads the port as a non-empty run of decimal digits, takes the
  host as the text before the last colon, unchanged, and treats a text without a colon
  as malformed.
\<close>

datatype ParseError = ParseError string

fun digit_value :: "char \<Rightarrow> nat option" where
  "digit_value c =
     (if CHR ''0'' \<le> c \<and> c \<le> CHR ''9''
      then Some (of_char c - of_char CHR ''0'') else None)"

fun parse_digits :: "nat \<Rightarrow> string \<Rightarrow> nat option" where
  "parse_digits acc [] = Some acc"
| "parse_digits acc (c # cs) =
     (case digit_value c of
        None \<Rightarrow> None
      | Some d \<Rightarrow> parse_digits (10 * acc + d) cs)"

definition parse_port :: "string \<Rightarrow> nat option" where
  "parse_port s = (if s = [] then None else parse_digits 0 s)"

fun split_last_colon :: "string \<Rightarrow> (string \<times> string) option" where
  "split_last_colon [] = None"
| "split_last_colon (c # cs) =
     (case split_last_colon cs of
        Some (h, p) \<Rightarrow> Some (c # h, p)
      | None \<Rightarrow> if c = CHR '':'' then Some ([], cs) else None)"

definition parse_EndPoint :: "string \<Rightarrow> ParseError + EndPoint" where
  "parse_EndPoint s =
     (case split_last_colon s of
        None \<Rightarrow> Inl (ParseError s)
      | Some (h, ps) \<Rightarrow>
          (case parse_port ps of
             None \<Rightarrow> Inl (ParseError ps)
           | Some n \<Rightarrow>
               if n \<le> 65535 then Inr (EndPoint_ctor h (of_nat n))
               else Inl (ParseError ps)))"

section \<open>Construction\<close>

text \<open>
  C1. Construction round-trip: for every host string \<open>h\<close> and every 16-bit port \<open>p\<close>,
  the end point built by the two-argument constructor has its host member equal to \<open>h\<close>
  and its port member equal to \<open>p\<close>. The scenario of the specification,
  \<^verbatim>\<open>EndPoint("127.0.0.1", 10800)\<close>, is the second half of the statement.
\<close>

theorem ctor_round_trip:
  "host (EndPoint_ctor h p) = h \<and> port (EndPoint_ctor h p) = p \<and>
   host (EndPoint_ctor ''127.0.0.1'' 10800) = ''127.0.0.1'' \<and>
   unat (port (EndPoint_ctor ''127.0.0.1'' 10800)) = 10800"
  by (simp add: EndPoint_ctor_def)

text \<open>
  C2. Default construction yields the sentinel: the default-constructed end point has
  the empty host and port 0, and it is the same value as the end point constructed
  explicitly from the empty string and 0.
\<close>

theorem default_is_sentinel:
  "host EndPoint_default = [] \<and> port EndPoint_default = 0 \<and>
   unat (port EndPoint_default) = 0 \<and>
   EndPoint_default = EndPoint_ctor [] 0"
  by (simp add: EndPoint_default_def EndPoint_ctor_def)

text \<open>
  C4. Construction never fails: the constructor has no error result, and for every host
  string, the empty string included, and every port it returns an end point that
  carries both arguments. Every number of the unsigned 16-bit range, from 0 to 65535,
  is accepted and stored as that number. No two different pairs of arguments give the
  same end point, so no argument is replaced by a sentinel. (Exhaustion of memory while
  the string is copied is not part of the model.)
\<close>

theorem ctor_never_fails:
  "(\<exists>e. EndPoint_ctor h p = e \<and> host e = h \<and> port e = p) \<and>
   (\<exists>e. EndPoint_ctor [] p = e \<and> host e = [] \<and> port e = p) \<and>
   (n \<le> 65535 \<longrightarrow>
      (\<exists>e. EndPoint_ctor h (of_nat n) = e \<and> host e = h \<and> unat (port e) = n)) \<and>
   (EndPoint_ctor h p = EndPoint_ctor h' p' \<longleftrightarrow> h = h' \<and> p = p')"
  by (auto simp: EndPoint_ctor_def unat_of_nat)

theorem ctor_never_fails_witness:
  "(65535::nat) \<le> 65535 \<and>
   (\<exists>e. EndPoint_ctor [] (of_nat 65535) = e \<and> host e = [] \<and> unat (port e) = 65535)"
  using ctor_never_fails [of "[]" 0 65535 "[]" 0] by simp

text \<open>
  C6. The host is stored verbatim: the host member of the constructed end point is the
  string given to the constructor, whatever the port. Two hosts are stored as the same
  string only when they are the same string, so nothing is normalised or case-folded;
  a string that is no host name at all is stored as it is, so nothing is validated.
\<close>

theorem host_stored_verbatim:
  "host (EndPoint_ctor h p) = h \<and>
   (host (EndPoint_ctor h1 p1) = host (EndPoint_ctor h2 p2) \<longleftrightarrow> h1 = h2) \<and>
   host (EndPoint_ctor ''LocalHost'' p) = ''LocalHost'' \<and>
   host (EndPoint_ctor ''LocalHost'' p) \<noteq> host (EndPoint_ctor ''localhost'' p) \<and>
   host (EndPoint_ctor '' not a host name '' p) = '' not a host name '' \<and>
   host (EndPoint_ctor [] p) = []"
  by (simp add: EndPoint_ctor_def)

section \<open>The port\<close>

text \<open>
  C7. Port range invariant: the port of every end point, default-constructed or
  constructed from arguments, lies between 0 and 65535 inclusive.
\<close>

theorem port_in_uint16_range:
  "0 \<le> uint (port (e::EndPoint)) \<and> uint (port e) \<le> 65535 \<and>
   unat (port e) \<le> 65535 \<and>
   unat (port EndPoint_default) \<le> 65535 \<and>
   unat (port (EndPoint_ctor h p)) \<le> 65535"
proof -
  have bound: "unat w \<le> 65535" for w :: uint16_t
  proof -
    have "unat w < 2 ^ LENGTH(16)" by (rule unsigned_less)
    then show ?thesis by simp
  qed
  have "uint (port e) < 2 ^ LENGTH(16)" by (rule uint_bounded)
  then have "uint (port e) \<le> 65535" by simp
  with bound show ?thesis by (simp add: uint_nonnegative)
qed

text \<open>
  C10. At the constructor's interface the port parameter has the type
  \<^verbatim>\<open>uint16_t\<close>: an integer argument \<open>i\<close> of a wider type is converted to it, which
  in C++ is reduction modulo \<open>2^16\<close> (\<^term>\<open>word_of_int\<close>), and is not rejected. The
  constructed end point's port is the argument modulo 65536; 99999 is stored as 34463.
\<close>

theorem ctor_port_reduced_mod_65536:
  "uint (port (EndPoint_ctor h (word_of_int i))) = i mod 65536 \<and>
   unat (port (EndPoint_ctor h (of_nat n))) = n mod 65536 \<and>
   port (EndPoint_ctor h (word_of_int 99999)) = 34463 \<and>
   port (EndPoint_ctor h (word_of_int 65536)) = 0 \<and>
   port (EndPoint_ctor h (word_of_int 65535)) = 65535"
  by (simp add: EndPoint_ctor_def uint_word_of_int unat_of_nat)

section \<open>Values and comparison\<close>

text \<open>
  C8. Copies are value-independent: the end point constructed from the members of an
  end point \<open>e\<close> is the same value as \<open>e\<close>, member by member. Values of the model
  have no identity besides their members.
\<close>

theorem copy_from_fields_is_equal:
  "EndPoint_ctor (host e) (port e) = (e::EndPoint) \<and>
   host (EndPoint_ctor (host e) (port e)) = host e \<and>
   port (EndPoint_ctor (host e) (port e)) = port e"
  by (simp add: EndPoint_ctor_def)

text \<open>
  C3. Equality holds iff both members agree: the comparison that the specification
  asks for holds exactly when the two end points are the same struct value, that is
  when the hosts are the same string, character by character and case-sensitively, and
  the ports are the same number. It is reflexive, symmetric and transitive. The three
  examples of the specification and one of case-sensitivity are the last conjuncts.
\<close>

theorem equality_is_fieldwise_equivalence:
  "(EndPoint_equal e1 e2 \<longleftrightarrow> e1 = e2) \<and>
   (EndPoint_equal e1 e2 \<longleftrightarrow> host e1 = host e2 \<and> port e1 = port e2) \<and>
   EndPoint_equal e1 e1 \<and>
   (EndPoint_equal e1 e2 \<longrightarrow> EndPoint_equal e2 e1) \<and>
   (EndPoint_equal e1 e2 \<and> EndPoint_equal e2 e3 \<longrightarrow> EndPoint_equal e1 e3) \<and>
   EndPoint_equal (EndPoint_ctor ''a'' 1) (EndPoint_ctor ''a'' 1) \<and>
   \<not> EndPoint_equal (EndPoint_ctor ''a'' 1) (EndPoint_ctor ''a'' 2) \<and>
   \<not> EndPoint_equal (EndPoint_ctor ''a'' 1) (EndPoint_ctor ''b'' 1) \<and>
   \<not> EndPoint_equal (EndPoint_ctor ''a'' 1) (EndPoint_ctor ''A'' 1)"
  by (auto simp: EndPoint_equal_def EndPoint_ctor_def)

theorem equality_is_fieldwise_equivalence_witness:
  "EndPoint_equal (EndPoint_ctor ''a'' 1) \<lparr>host = ''a'', port = 1\<rparr> \<and>
   EndPoint_equal \<lparr>host = ''a'', port = 1\<rparr> (EndPoint_ctor ''a'' 1) \<and>
   EndPoint_equal \<lparr>host = ''a'', port = 1\<rparr> (EndPoint_ctor ''a'' (word_of_int 65537)) \<and>
   EndPoint_equal (EndPoint_ctor ''a'' 1) (EndPoint_ctor ''a'' (word_of_int 65537))"
proof -
  let ?e1 = "EndPoint_ctor ''a'' 1"
  let ?e2 = "\<lparr>host = ''a'', port = 1\<rparr> :: EndPoint"
  let ?e3 = "EndPoint_ctor ''a'' (word_of_int 65537)"
  have h12: "EndPoint_equal ?e1 ?e2"
    by (simp add: EndPoint_equal_def EndPoint_ctor_def)
  have h23: "EndPoint_equal ?e2 ?e3"
    by (simp add: EndPoint_equal_def EndPoint_ctor_def)
  from equality_is_fieldwise_equivalence [of ?e1 ?e2 ?e3]
  have sym: "EndPoint_equal ?e1 ?e2 \<longrightarrow> EndPoint_equal ?e2 ?e1"
    and trans: "EndPoint_equal ?e1 ?e2 \<and> EndPoint_equal ?e2 ?e3 \<longrightarrow> EndPoint_equal ?e1 ?e3"
    by blast+
  from h12 h23 sym trans show ?thesis by blast
qed

section \<open>Mutation of the members\<close>

text \<open>
  An instance that is only read stays as it is. An access that goes through no
  non-const path to the host leaves the host as it was, and likewise for the port. Each
  is by induction over the accesses, with the instance generalised because an access may
  change it.
\<close>

lemma lifetime_reads:
  "\<forall>a \<in> set as. is_read a \<Longrightarrow> lifetime e as = e"
proof (induction as arbitrary: e)
  case Nil
  then show ?case by simp
next
  case (Cons a as)
  from Cons.prems have "is_read a" by simp
  then have "access e a = e" by (cases a) simp_all
  with Cons show ?case by simp
qed

lemma lifetime_keeps_host:
  "\<forall>a \<in> set as. \<not> writes_host a \<Longrightarrow> host (lifetime e as) = host e"
proof (induction as arbitrary: e)
  case Nil
  then show ?case by simp
next
  case (Cons a as)
  from Cons.prems have "\<not> writes_host a" by simp
  then have "host (access e a) = host e" by (cases a) simp_all
  with Cons show ?case by simp
qed

lemma lifetime_keeps_port:
  "\<forall>a \<in> set as. \<not> writes_port a \<Longrightarrow> port (lifetime e as) = port e"
proof (induction as arbitrary: e)
  case Nil
  then show ?case by simp
next
  case (Cons a as)
  from Cons.prems have "\<not> writes_port a" by simp
  then have "port (access e a) = port e" by (cases a) simp_all
  with Cons show ?case by simp
qed

text \<open>
  C5 (as stated). The claim is that the host and port of a constructed end point are
  fixed for the lifetime of the instance and that the type exposes no operation that
  mutates them. The members are public and not const: after
  \<^verbatim>\<open>EndPoint e("a", 1); e.port = 2;\<close> the port of \<open>e\<close> is 2, and after
  \<^verbatim>\<open>e.host = "b";\<close> its host is \<^verbatim>\<open>"b"\<close>. No assignment is needed either: after
  \<^verbatim>\<open>e.host.clear();\<close> the host is empty, and after \<^verbatim>\<open>++e.port;\<close> the port is 2.
\<close>

theorem fields_not_fixed_counterexample:
  "port (access (EndPoint_ctor ''a'' 1) (Write_port 2)) \<noteq> port (EndPoint_ctor ''a'' 1) \<and>
   host (access (EndPoint_ctor ''a'' 1) (Write_host ''b'')) \<noteq> host (EndPoint_ctor ''a'' 1) \<and>
   host (access (EndPoint_ctor ''a'' 1) (Modify_host (\<lambda>h. []))) \<noteq> host (EndPoint_ctor ''a'' 1) \<and>
   port (access (EndPoint_ctor ''a'' 1) (Modify_port (\<lambda>p. p + 1))) \<noteq> port (EndPoint_ctor ''a'' 1)"
  by (simp add: EndPoint_ctor_def)

text \<open>
  C5 (amended). The struct declares no member function besides its two constructors, and
  an instance that is only read, as a const instance is, keeps its host and its port for
  its lifetime. The members are public and not const, so the holder of a non-const
  instance can change them: by assigning to a member, by changing it in place (the
  modifying member functions of the string, moving from the instance, incrementing the
  port), or by assigning the whole object. The host keeps its value over any sequence of
  accesses none of which goes through a non-const path to the host or to the whole
  object, and likewise the port: a write through one member stores the value written and
  leaves the other member unchanged.
\<close>

theorem fields_fixed_under_const_access:
  "((\<forall>a \<in> set as. is_read a) \<longrightarrow> lifetime e as = e) \<and>
   ((\<forall>a \<in> set as. \<not> writes_host a) \<longrightarrow> host (lifetime e as) = host e) \<and>
   ((\<forall>a \<in> set as. \<not> writes_port a) \<longrightarrow> port (lifetime e as) = port e) \<and>
   host (access e (Write_host h)) = h \<and> port (access e (Write_host h)) = port e \<and>
   port (access e (Write_port p)) = p \<and> host (access e (Write_port p)) = host e \<and>
   host (access e (Modify_host f)) = f (host e) \<and>
   port (access e (Modify_host f)) = port e \<and>
   port (access e (Modify_port g)) = g (port e) \<and>
   host (access e (Modify_port g)) = host e \<and>
   access e (Assign other) = other \<and>
   access e Read_host = e \<and> access e Read_port = e"
  using lifetime_reads [of as e] lifetime_keeps_host [of as e] lifetime_keeps_port [of as e]
  by simp

theorem fields_fixed_under_const_access_witness:
  "lifetime (EndPoint_ctor ''a'' 1) [Read_host, Read_port, Read_host] = EndPoint_ctor ''a'' 1 \<and>
   host (lifetime (EndPoint_ctor ''a'' 1)
     [Read_host, Write_port 2, Modify_port (\<lambda>p. p + 1), Read_port]) = ''a'' \<and>
   unat (port (lifetime (EndPoint_ctor ''a'' 1)
     [Read_host, Write_host ''b'', Modify_host (\<lambda>h. []), Read_port])) = 1"
proof -
  let ?e = "EndPoint_ctor ''a'' 1"
  let ?rs = "[Read_host, Read_port, Read_host]"
  let ?ps = "[Read_host, Write_port 2, Modify_port (\<lambda>p. p + 1), Read_port]"
  let ?hs = "[Read_host, Write_host ''b'', Modify_host (\<lambda>h. []), Read_port]"
  have r: "\<forall>a \<in> set ?rs. is_read a" by simp
  have h: "\<forall>a \<in> set ?ps. \<not> writes_host a" by simp
  have p: "\<forall>a \<in> set ?hs. \<not> writes_port a" by simp
  from fields_fixed_under_const_access [of ?rs ?e] r
  have "lifetime ?e ?rs = ?e" by blast
  moreover
  from fields_fixed_under_const_access [of ?ps ?e] h
  have "host (lifetime ?e ?ps) = host ?e" by blast
  moreover
  from fields_fixed_under_const_access [of ?hs ?e] p
  have "port (lifetime ?e ?hs) = port ?e" by blast
  ultimately show ?thesis by (simp add: EndPoint_ctor_def)
qed

section \<open>The parser of the configuration layer\<close>

text \<open>
  A colon is not a decimal digit, so a text that reads as a number has no colon; the
  split on the last colon finds exactly the decomposition \<open>h @ '':'' @ ps\<close> in which
  \<open>ps\<close> has no colon.
\<close>

lemma digit_value_colon: "digit_value CHR '':'' = None"
  by simp

lemma parse_digits_no_colon:
  "parse_digits acc s = Some n \<Longrightarrow> CHR '':'' \<notin> set s"
proof (induction s arbitrary: acc)
  case Nil
  then show ?case by simp
next
  case (Cons c cs)
  show ?case
  proof (cases "digit_value c")
    case None
    with Cons.prems show ?thesis by simp
  next
    case (Some d)
    with Cons.prems have rest: "parse_digits (10 * acc + d) cs = Some n" by simp
    from Some digit_value_colon have "c \<noteq> CHR '':''" by auto
    with Cons.IH [OF rest] show ?thesis by simp
  qed
qed

lemma split_last_colon_None:
  "CHR '':'' \<notin> set s \<Longrightarrow> split_last_colon s = None"
  by (induction s) auto

lemma split_last_colon_append:
  "CHR '':'' \<notin> set ps \<Longrightarrow> split_last_colon (h @ CHR '':'' # ps) = Some (h, ps)"
  by (induction h) (simp_all add: split_last_colon_None)

lemma split_last_colon_Some:
  "split_last_colon s = Some (h, ps) \<Longrightarrow> s = h @ CHR '':'' # ps \<and> CHR '':'' \<notin> set ps"
proof (induction s arbitrary: h)
  case Nil
  then show ?case by simp
next
  case (Cons c cs)
  show ?case
  proof (cases "split_last_colon cs")
    case None
    with Cons.prems have "c = CHR '':''" and "h = []" and "ps = cs"
      by (auto split: if_splits)
    moreover have "CHR '':'' \<notin> set cs"
    proof
      assume "CHR '':'' \<in> set cs"
      then obtain xs ys where "cs = xs @ CHR '':'' # ys" and "CHR '':'' \<notin> set ys"
        by (meson split_list_last)
      then have "split_last_colon cs = Some (xs, ys)"
        by (simp add: split_last_colon_append)
      with None show False by simp
    qed
    ultimately show ?thesis by simp
  next
    case (Some r)
    obtain h' p' where r: "r = (h', p')" by (cases r)
    with Some Cons.prems have "h = c # h'" and "p' = ps" by auto
    with Cons.IH [of h'] Some r show ?thesis by simp
  qed
qed

text \<open>
  C9. The companion parser, as the specification describes it: the text
  \<^verbatim>\<open>example.com:33000\<close> parses to the end point with host \<^verbatim>\<open>example.com\<close> and port
  33000; \<^verbatim>\<open>example.com:99999\<close> fails with a \<^verbatim>\<open>ParseError\<close> that lists the offending
  text; every text \<^verbatim>\<open>host:port\<close> whose port reads as a number above 65535 fails with a
  \<^verbatim>\<open>ParseError\<close>; and whenever the parser returns an end point, the text is
  \<^verbatim>\<open>host:port\<close> with a port number of at most 65535, which is stored as that number
  and not reduced modulo \<open>2^16\<close>.
\<close>

theorem parser_rejects_out_of_range_port:
  "parse_EndPoint ''example.com:33000'' = Inr (EndPoint_ctor ''example.com'' 33000) \<and>
   parse_EndPoint ''example.com:99999'' = Inl (ParseError ''99999'') \<and>
   (parse_port ps = Some n \<and> 65535 < n \<longrightarrow>
      parse_EndPoint (h @ CHR '':'' # ps) = Inl (ParseError ps)) \<and>
   (parse_EndPoint s = Inr e \<longrightarrow>
      (\<exists>h' ps' n'. s = h' @ CHR '':'' # ps' \<and> parse_port ps' = Some n' \<and>
         n' \<le> 65535 \<and> host e = h' \<and> unat (port e) = n'))"
proof -
  have ok: "parse_EndPoint ''example.com:33000'' = Inr (EndPoint_ctor ''example.com'' 33000)"
    by (simp add: parse_EndPoint_def parse_port_def)
  have bad: "parse_EndPoint ''example.com:99999'' = Inl (ParseError ''99999'')"
    by (simp add: parse_EndPoint_def parse_port_def)
  have reject: "parse_EndPoint (h @ CHR '':'' # ps) = Inl (ParseError ps)"
    if "parse_port ps = Some n" and "65535 < n"
  proof -
    from that(1) have "parse_digits 0 ps = Some n"
      by (simp add: parse_port_def split: if_splits)
    then have "CHR '':'' \<notin> set ps" by (rule parse_digits_no_colon)
    then have "split_last_colon (h @ CHR '':'' # ps) = Some (h, ps)"
      by (rule split_last_colon_append)
    with that show ?thesis by (simp add: parse_EndPoint_def)
  qed
  have sound: "\<exists>h' ps' n'. s = h' @ CHR '':'' # ps' \<and> parse_port ps' = Some n' \<and>
         n' \<le> 65535 \<and> host e = h' \<and> unat (port e) = n'"
    if "parse_EndPoint s = Inr e"
  proof -
    from that obtain h' ps' where sp: "split_last_colon s = Some (h', ps')"
      by (auto simp: parse_EndPoint_def split: option.splits)
    with that obtain n' where pp: "parse_port ps' = Some n'"
      by (auto simp: parse_EndPoint_def split: option.splits)
    with sp that have le: "n' \<le> 65535" and e: "e = EndPoint_ctor h' (of_nat n')"
      by (auto simp: parse_EndPoint_def split: if_splits)
    from sp have "s = h' @ CHR '':'' # ps'" by (simp add: split_last_colon_Some)
    moreover from e have "host e = h'" by (simp add: EndPoint_ctor_def)
    moreover from e le have "unat (port e) = n'"
      by (simp add: EndPoint_ctor_def unat_of_nat)
    ultimately show ?thesis using pp le by blast
  qed
  from ok bad reject sound show ?thesis by blast
qed

theorem parser_rejects_out_of_range_port_witness:
  "parse_port ''65536'' = Some 65536 \<and>
   parse_EndPoint ''[::1]:65536'' = Inl (ParseError ''65536'') \<and>
   parse_EndPoint ''[::1]:65535'' = Inr (EndPoint_ctor ''[::1]'' 65535) \<and>
   (\<exists>h' ps' n'. ''[::1]:65535'' = h' @ CHR '':'' # ps' \<and> parse_port ps' = Some n' \<and>
      n' \<le> 65535 \<and> host (EndPoint_ctor ''[::1]'' 65535) = h' \<and>
      unat (port (EndPoint_ctor ''[::1]'' 65535)) = n')"
proof -
  have pp: "parse_port ''65536'' = Some 65536" by (simp add: parse_port_def)
  have r: "parse_EndPoint ''[::1]:65535'' = Inr (EndPoint_ctor ''[::1]'' 65535)"
    by (simp add: parse_EndPoint_def parse_port_def)
  from parser_rejects_out_of_range_port
    [of "''65536''" 65536 "''[::1]''" "''[::1]:65535''" "EndPoint_ctor ''[::1]'' 65535"] pp r
  show ?thesis by simp
qed

end
